theory Spec2Isabelle
  imports Main "HOL-Library.AList"
begin

section \<open>Python values, dictionaries and errors\<close>

text \<open>
  The option bag \<^verbatim>\<open>**kwargs\<close> of evalscope/backend/rag_eval/utils/embedding.py is a
  dynamically typed dictionary. Its values are modelled by \<open>pyval\<close>; a dictionary is an
  association list in insertion order, read with \<open>map_of\<close> and written with
  \<open>AList.update\<close> (an existing key keeps its place, a new key goes to the end, as in
  Python).
\<close>

datatype pyval = PNone | PBool bool | PInt int | PStr string | PDict "(string \<times> pyval) list"

type_synonym dict = "(string \<times> pyval) list"

datatype error =
    TypeError
  | KeyError string
  | IndexError
  | ValueError
  | AttributeError
  | AssertionError
  | NotImplementedError
  | Raised string

text \<open>\<open>Raised\<close> is an exception of an external collaborator, propagated unchanged.\<close>

fun truthy :: "pyval \<Rightarrow> bool" where
  "truthy PNone = False"
| "truthy (PBool b) = b"
| "truthy (PInt i) = (i \<noteq> 0)"
| "truthy (PStr s) = (s \<noteq> [])"
| "truthy (PDict d) = (d \<noteq> [])"

definition dict_get :: "dict \<Rightarrow> string \<Rightarrow> pyval \<Rightarrow> pyval" where
  "dict_get d k dflt = (case map_of d k of None \<Rightarrow> dflt | Some v \<Rightarrow> v)"

definition has_key :: "dict \<Rightarrow> string \<Rightarrow> bool" where
  "has_key d k = (map_of d k \<noteq> None)"

definition dict_update :: "dict \<Rightarrow> dict \<Rightarrow> dict" where
  "dict_update d kw = fold (\<lambda>(k, v). AList.update k v) kw d"

section \<open>External collaborators\<close>

text \<open>
  The third-party objects held in \<^verbatim>\<open>self.model\<close> are opaque to this module. A
  \<open>handle\<close> records which constructor built the object and with which arguments:
  \<^item> \<open>SentenceTransformer_of path config_kwargs model_kwargs max_seq_length\<close>
    (lines 96-100 and the attribute assignment of line 113);
  \<^item> \<open>SentenceTransformer_modules path config_args model_args pooling_mode max_seq_length\<close>
    (lines 102-111 and 113);
  \<^item> \<open>CrossEncoder_of path max_length\<close> (lines 138-142, \<^verbatim>\<open>trust_remote_code=True\<close>);
  \<^item> \<open>OpenAIEmbeddings_of model openai_api_base openai_api_key dimensions\<close>
    (lines 167-172, \<^verbatim>\<open>check_embedding_ctx_length=False\<close>).
\<close>

datatype handle =
    SentenceTransformer_of pyval dict dict pyval
  | SentenceTransformer_modules pyval dict dict pyval pyval
  | CrossEncoder_of pyval pyval
  | OpenAIEmbeddings_of pyval pyval pyval pyval

text \<open>
  A text unit is a raw string or a structured record \<^verbatim>\<open>Dict[str, str]\<close>.
\<close>

datatype text_unit = Plain string | Doc "(string \<times> string) list"

datatype texts = Str string | Lst "text_unit list"

datatype 'f tensor = Tensor0 'f | Tensor1 "'f list" | Tensor2 "'f list list"

datatype 'f runtime_value = IsTensor "'f tensor" | NotTensor

record 'f world =
  path_exists :: "string \<Rightarrow> bool"
  download_model :: "string \<Rightarrow> pyval \<Rightarrow> error + string"
  construct :: "handle \<Rightarrow> error option"
  model_encode :: "handle \<Rightarrow> texts \<Rightarrow> pyval \<Rightarrow> dict \<Rightarrow> error + 'f runtime_value"
  model_predict :: "handle \<Rightarrow> text_unit list list \<Rightarrow> dict \<Rightarrow> error + 'f runtime_value"
  model_embed_documents :: "handle \<Rightarrow> text_unit list \<Rightarrow> pyval \<Rightarrow> error + 'f list list"

text \<open>Every call of a collaborator that has an effect is logged, in order.\<close>

datatype event =
    Download string pyval
  | Construct handle
  | Encode handle texts pyval dict
  | Predict handle "text_unit list list" dict
  | EmbedDocuments handle "text_unit list" pyval

text \<open>
  Modelled from the spec: the constant \<^verbatim>\<open>HubType.MODELSCOPE\<close> is declared in
  evalscope.constants, another module; the comment of line 214 and the specification
  name the hub \<^verbatim>\<open>'modelscope'\<close>.
\<close>

definition MODELSCOPE :: string where
  "MODELSCOPE = ''modelscope''"

section \<open>BaseModel\<close>

record base_model =
  model_name_or_path :: pyval
  max_seq_length :: pyval
  model_kwargs :: dict
  config_kwargs :: dict
  encode_kwargs :: dict
  prompt :: pyval
  revision :: pyval

text \<open>
  \<^verbatim>\<open>BaseModel.__init__(self, model_name_or_path='', max_seq_length=512, prompt='',
  revision='master', **kwargs)\<close>, lines 21-41. The first argument of \<open>BaseModel_init\<close> is
  the identifier, the second holds every keyword argument of the call. Python binds
  \<^verbatim>\<open>max_seq_length\<close>, \<^verbatim>\<open>prompt\<close> and \<^verbatim>\<open>revision\<close> to the named parameters and
  refuses a second value for \<^verbatim>\<open>model_name_or_path\<close>. Item assignment on a value that
  is not a dictionary raises \<^verbatim>\<open>TypeError\<close>.
\<close>

definition BaseModel_init :: "pyval \<Rightarrow> dict \<Rightarrow> error + base_model" where
  "BaseModel_init path kw =
    (if has_key kw ''model_name_or_path'' then Inl TypeError
     else
       (case dict_get kw ''model_kwargs'' (PDict []) of
          PDict mk \<Rightarrow>
            (case dict_get kw ''config_kwargs'' (PDict []) of
               PDict ck \<Rightarrow>
                 (case dict_get kw ''encode_kwargs'' (PDict []) of
                    PDict ek \<Rightarrow>
                      Inr \<lparr> model_name_or_path = path,
                            max_seq_length = dict_get kw ''max_seq_length'' (PInt 512),
                            model_kwargs = AList.update ''trust_remote_code'' (PBool True) mk,
                            config_kwargs = AList.update ''trust_remote_code'' (PBool True) ck,
                            encode_kwargs = AList.update ''convert_to_tensor'' (PBool True) ek,
                            prompt = dict_get kw ''prompt'' (PStr []),
                            revision = dict_get kw ''revision'' (PStr ''master'') \<rparr>
                  | _ \<Rightarrow> Inl TypeError)
             | _ \<Rightarrow> Inl TypeError)
        | _ \<Rightarrow> Inl TypeError))"

section \<open>The three adapters and their constructors\<close>

text \<open>
  An adapter is its \<open>BaseModel\<close> fields and \<^verbatim>\<open>self.model\<close>; the remote adapter has
  \<^verbatim>\<open>self.batch_size\<close> as well (its \<^verbatim>\<open>model_name\<close>, \<^verbatim>\<open>openai_api_base\<close>,
  \<^verbatim>\<open>openai_api_key\<close> and \<^verbatim>\<open>dimensions\<close> are the arguments of its handle).
\<close>

datatype adapter =
    SentenceTransformerModel base_model handle
  | CrossEncoderModel base_model handle
  | APIEmbeddingModel base_model handle pyval

fun base_of :: "adapter \<Rightarrow> base_model" where
  "base_of (SentenceTransformerModel b h) = b"
| "base_of (CrossEncoderModel b h) = b"
| "base_of (APIEmbeddingModel b h bs) = b"

fun is_api :: "adapter \<Rightarrow> bool" where
  "is_api (APIEmbeddingModel b h bs) = True"
| "is_api _ = False"

fun is_cross :: "adapter \<Rightarrow> bool" where
  "is_cross (CrossEncoderModel b h) = True"
| "is_cross _ = False"

fun is_bi :: "adapter \<Rightarrow> bool" where
  "is_bi (SentenceTransformerModel b h) = True"
| "is_bi _ = False"

text \<open>Building the third-party object: logged, and it may raise.\<close>

definition build :: "'f world \<Rightarrow> handle \<Rightarrow> (handle \<Rightarrow> adapter) \<Rightarrow> event list \<times> (error + adapter)" where
  "build W h mk =
     ([Construct h], case construct W h of Some e \<Rightarrow> Inl e | None \<Rightarrow> Inr (mk h))"

text \<open>
  \<^verbatim>\<open>SentenceTransformerModel.__init__(self, model_name_or_path, pooling_mode=None,
  **kwargs)\<close>, lines 92-113.
\<close>

definition SentenceTransformerModel_init ::
  "'f world \<Rightarrow> pyval \<Rightarrow> dict \<Rightarrow> event list \<times> (error + adapter)" where
  "SentenceTransformerModel_init W path kw =
    (if has_key kw ''model_name_or_path'' then ([], Inl TypeError)
     else
       let pooling_mode = dict_get kw ''pooling_mode'' PNone in
       (case BaseModel_init path (AList.delete ''pooling_mode'' kw) of
          Inl e \<Rightarrow> ([], Inl e)
        | Inr b \<Rightarrow>
            if \<not> truthy pooling_mode then
              build W (SentenceTransformer_of (model_name_or_path b) (config_kwargs b)
                         (model_kwargs b) (max_seq_length b))
                (SentenceTransformerModel b)
            else
              build W (SentenceTransformer_modules (model_name_or_path b) (config_kwargs b)
                         (model_kwargs b) pooling_mode (max_seq_length b))
                (SentenceTransformerModel b)))"

text \<open>\<^verbatim>\<open>CrossEncoderModel.__init__(self, model_name_or_path, **kwargs)\<close>, lines 136-142.\<close>

definition CrossEncoderModel_init ::
  "'f world \<Rightarrow> pyval \<Rightarrow> dict \<Rightarrow> event list \<times> (error + adapter)" where
  "CrossEncoderModel_init W path kw =
    (if has_key kw ''model_name_or_path'' then ([], Inl TypeError)
     else
       (case BaseModel_init path kw of
          Inl e \<Rightarrow> ([], Inl e)
        | Inr b \<Rightarrow>
            build W (CrossEncoder_of (model_name_or_path b) (max_seq_length b))
              (CrossEncoderModel b)))"

text \<open>
  \<^verbatim>\<open>APIEmbeddingModel.__init__(self, **kwargs)\<close>, lines 161-176: the client is built
  first, then \<open>BaseModel.__init__\<close> runs with the whole option bag, then the batch size is
  read from the encode-time options.
\<close>

definition APIEmbeddingModel_init ::
  "'f world \<Rightarrow> dict \<Rightarrow> event list \<times> (error + adapter)" where
  "APIEmbeddingModel_init W kw =
    (let model_name = dict_get kw ''model_name'' PNone;
         h = OpenAIEmbeddings_of model_name (dict_get kw ''api_base'' PNone)
               (dict_get kw ''api_key'' PNone) (dict_get kw ''dimensions'' PNone)
     in ([Construct h],
         case construct W h of
           Some e \<Rightarrow> Inl e
         | None \<Rightarrow>
             (case BaseModel_init model_name kw of
                Inl e \<Rightarrow> Inl e
              | Inr b \<Rightarrow>
                  Inr (APIEmbeddingModel b h (dict_get (encode_kwargs b) ''batch_size'' (PInt 10))))))"

section \<open>EmbeddingModel.load\<close>

text \<open>
  \<^verbatim>\<open>EmbeddingModel.load(model_name_or_path='', is_cross_encoder=False,
  hub=HubType.MODELSCOPE, revision='master', **kwargs)\<close>, lines 202-230. The local
  constructors are called with \<^verbatim>\<open>revision=revision, **kwargs\<close>; Python refuses the call
  when the option bag has a key \<^verbatim>\<open>revision\<close> of its own (which the binding of
  \<^verbatim>\<open>load\<close> itself excludes).
\<close>

definition load ::
  "'f world \<Rightarrow> string \<Rightarrow> bool \<Rightarrow> string \<Rightarrow> pyval \<Rightarrow> dict \<Rightarrow> event list \<times> (error + adapter)" where
  "load W path is_cross_encoder hub rv kwargs =
    (if truthy (dict_get kwargs ''model_name'' PNone) then APIEmbeddingModel_init W kwargs
     else
       let (ev, resolved) =
             (if \<not> path_exists W path \<and> hub = MODELSCOPE
              then ([Download path rv], download_model W path rv)
              else ([], Inr path))
       in (case resolved of
             Inl e \<Rightarrow> (ev, Inl e)
           | Inr p \<Rightarrow>
               if has_key kwargs ''revision'' then (ev, Inl TypeError)
               else
                 let (ev', r) =
                       (if is_cross_encoder
                        then CrossEncoderModel_init W (PStr p) ((''revision'', rv) # kwargs)
                        else SentenceTransformerModel_init W (PStr p) ((''revision'', rv) # kwargs))
                 in (ev @ ev', r)))"

section \<open>Normalising a corpus\<close>

text \<open>
  Strings are lists of 8-bit characters. \<^verbatim>\<open>str.strip()\<close> removes the white space of
  the ASCII range at both ends: the code points 9-13, 28-31 and 32. White space beyond
  ASCII is outside this model.
\<close>

definition is_space :: "char \<Rightarrow> bool" where
  "is_space c = (c \<in> set [CHR 0x09, CHR 0x0A, CHR 0x0B, CHR 0x0C, CHR 0x0D,
                           CHR 0x1C, CHR 0x1D, CHR 0x1E, CHR 0x1F, CHR 0x20])"

definition strip :: "string \<Rightarrow> string" where
  "strip s = rev (dropWhile is_space (rev (dropWhile is_space s)))"

text \<open>
  \<^verbatim>\<open>'{} {}'.format(doc.get('title', ''), doc['text']).strip()\<close> for one element of the
  corpus (lines 128 and 193): a string has no \<^verbatim>\<open>get\<close>, a record without
  \<^verbatim>\<open>text\<close> raises \<^verbatim>\<open>KeyError\<close>.
\<close>

fun normalize_doc :: "text_unit \<Rightarrow> error + text_unit" where
  "normalize_doc (Plain s) = Inl AttributeError"
| "normalize_doc (Doc d) =
     (case map_of d ''text'' of
        None \<Rightarrow> Inl (KeyError ''text'')
      | Some t \<Rightarrow>
          Inr (Plain (strip ((case map_of d ''title'' of None \<Rightarrow> [] | Some x \<Rightarrow> x) @ '' '' @ t))))"

fun normalize_all :: "text_unit list \<Rightarrow> error + text_unit list" where
  "normalize_all [] = Inr []"
| "normalize_all (x # xs) =
     (case normalize_doc x of
        Inl e \<Rightarrow> Inl e
      | Inr y \<Rightarrow> (case normalize_all xs of Inl e \<Rightarrow> Inl e | Inr ys \<Rightarrow> Inr (y # ys)))"

text \<open>
  The branch of lines 127-130 and 192-195: only \<^verbatim>\<open>corpus[0]\<close> is inspected, and an
  empty corpus raises \<^verbatim>\<open>IndexError\<close> there.
\<close>

fun input_texts :: "text_unit list \<Rightarrow> error + text_unit list" where
  "input_texts [] = Inl IndexError"
| "input_texts (Doc d # xs) = normalize_all (Doc d # xs)"
| "input_texts (Plain s # xs) = Inr (Plain s # xs)"

section \<open>SentenceTransformerModel\<close>

text \<open>
  A method returns the adapter's fields after the call, the calls of collaborators it
  made, and its result or the exception it raised.
\<close>

type_synonym 'r outcome = "base_model \<times> event list \<times> (error + 'r)"

text \<open>
  The outcome of a call of the runtime followed by
  \<^verbatim>\<open>assert isinstance(embeddings, Tensor)\<close> (lines 120 and 155).
\<close>

definition assert_tensor :: "error + 'f runtime_value \<Rightarrow> error + 'f tensor" where
  "assert_tensor r =
     (case r of
        Inl e \<Rightarrow> Inl e
      | Inr NotTensor \<Rightarrow> Inl AssertionError
      | Inr (IsTensor t) \<Rightarrow> Inr t)"

text \<open>
  \<^verbatim>\<open>SentenceTransformerModel.encode(self, texts, prompt=None, **kwargs)\<close>, lines 115-121.
  The call \<^verbatim>\<open>self.model.encode(texts, prompt=prompt, **self.encode_kwargs)\<close> is refused
  by Python when the stored options have a key \<^verbatim>\<open>prompt\<close> of their own.
\<close>

definition SentenceTransformerModel_encode ::
  "'f world \<Rightarrow> base_model \<Rightarrow> handle \<Rightarrow> texts \<Rightarrow> pyval \<Rightarrow> dict \<Rightarrow> 'f tensor outcome" where
  "SentenceTransformerModel_encode W b h txts prm kwargs =
    (let kwargs' = AList.delete ''prompt_name'' kwargs;
         ek = dict_update (encode_kwargs b) kwargs';
         b' = b\<lparr>encode_kwargs := ek\<rparr>
     in if has_key ek ''prompt'' then (b', [], Inl TypeError)
        else (b', [Encode h txts prm ek], assert_tensor (model_encode W h txts prm ek)))"

text \<open>Lines 123-124: the extra options are dropped, the configured prompt is passed.\<close>

definition SentenceTransformerModel_encode_queries ::
  "'f world \<Rightarrow> base_model \<Rightarrow> handle \<Rightarrow> texts \<Rightarrow> dict \<Rightarrow> 'f tensor outcome" where
  "SentenceTransformerModel_encode_queries W b h queries kwargs =
     SentenceTransformerModel_encode W b h queries (prompt b) []"

text \<open>Lines 126-131: the extra options are dropped, no prompt is passed.\<close>

definition SentenceTransformerModel_encode_corpus ::
  "'f world \<Rightarrow> base_model \<Rightarrow> handle \<Rightarrow> text_unit list \<Rightarrow> dict \<Rightarrow> 'f tensor outcome" where
  "SentenceTransformerModel_encode_corpus W b h corpus kwargs =
     (case input_texts corpus of
        Inl e \<Rightarrow> (b, [], Inl e)
      | Inr ts \<Rightarrow> SentenceTransformerModel_encode W b h (Lst ts) PNone [])"

section \<open>CrossEncoderModel\<close>

text \<open>
  One step of the loop of lines 149-152. The element must unpack into exactly three
  values; \<^verbatim>\<open>docs['text']\<close> is read before \<^verbatim>\<open>self.prompt + query\<close> is computed, and
  the sum exists only when both operands are strings.
\<close>

fun unwrap_triple :: "pyval \<Rightarrow> text_unit list \<Rightarrow> error + text_unit list" where
  "unwrap_triple p [query, docs, instruction] =
     (case (case docs of
              Doc d \<Rightarrow> (case map_of d ''text'' of
                          None \<Rightarrow> Inl (KeyError ''text'')
                        | Some t \<Rightarrow> Inr (Plain t))
            | Plain s \<Rightarrow> Inr (Plain s)) of
        Inl e \<Rightarrow> Inl e
      | Inr docs' \<Rightarrow>
          (case (p, query) of
             (PStr ps, Plain q) \<Rightarrow> Inr [Plain (ps @ q), docs']
           | _ \<Rightarrow> Inl TypeError))"
| "unwrap_triple p item = Inl ValueError"

fun processed_sentences :: "pyval \<Rightarrow> text_unit list list \<Rightarrow> error + text_unit list list" where
  "processed_sentences p [] = Inr []"
| "processed_sentences p (x # xs) =
     (case unwrap_triple p x of
        Inl e \<Rightarrow> Inl e
      | Inr y \<Rightarrow> (case processed_sentences p xs of Inl e \<Rightarrow> Inl e | Inr ys \<Rightarrow> Inr (y # ys)))"

text \<open>
  \<^verbatim>\<open>CrossEncoderModel.predict(self, sentences, **kwargs)\<close>, lines 144-156. A pair and a
  two-element list are not told apart: what reaches the runtime is a list of lists.
\<close>

definition CrossEncoderModel_predict ::
  "'f world \<Rightarrow> base_model \<Rightarrow> handle \<Rightarrow> text_unit list list \<Rightarrow> dict \<Rightarrow> 'f tensor outcome" where
  "CrossEncoderModel_predict W b h sentences kwargs =
    (let ek = dict_update (encode_kwargs b) kwargs;
         b' = b\<lparr>encode_kwargs := ek\<rparr>
     in case (case sentences of
                [] \<Rightarrow> Inl IndexError
              | s0 # rest \<Rightarrow>
                  if length s0 = 3 then processed_sentences (prompt b) sentences
                  else Inr sentences) of
          Inl e \<Rightarrow> (b', [], Inl e)
        | Inr ss \<Rightarrow>
            (b', [Predict h ss ek], assert_tensor (model_predict W h ss ek)))"

section \<open>APIEmbeddingModel\<close>

text \<open>
  \<^verbatim>\<open>range(0, len(texts), self.batch_size)\<close> wants an integer step (a Boolean is one)
  and refuses the step 0.
\<close>

fun as_index :: "pyval \<Rightarrow> int option" where
  "as_index (PInt i) = Some i"
| "as_index (PBool b) = Some (if b then 1 else 0)"
| "as_index _ = None"

text \<open>
  The loop of lines 183-185 from index \<open>i\<close> on, with the positive step \<open>n\<close>; \<open>bs\<close> is
  \<^verbatim>\<open>self.batch_size\<close> as stored, passed on as \<^verbatim>\<open>chunk_size\<close>. An exception of the
  client ends the loop.
\<close>

function embed_batches ::
  "'f world \<Rightarrow> handle \<Rightarrow> pyval \<Rightarrow> nat \<Rightarrow> text_unit list \<Rightarrow> nat \<Rightarrow> 'f list list
     \<Rightarrow> event list \<times> (error + 'f list list)" where
  "embed_batches W h bs n txts i embeddings =
    (if i < length txts \<and> 0 < n then
       (case model_embed_documents W h (take n (drop i txts)) bs of
          Inl e \<Rightarrow> ([EmbedDocuments h (take n (drop i txts)) bs], Inl e)
        | Inr response \<Rightarrow>
            (case embed_batches W h bs n txts (i + n) (embeddings @ response) of
               (ev, r) \<Rightarrow> (EmbedDocuments h (take n (drop i txts)) bs # ev, r)))
     else ([], Inr embeddings))"
  by pat_completeness auto
termination
  by (relation "measure (\<lambda>(W, h, bs, n, txts, i, embeddings). length txts - i)") auto

declare embed_batches.simps [simp del]

text \<open>
  \<^verbatim>\<open>torch.tensor\<close> on a list of rows: no rows give an empty one-dimensional tensor,
  rows of one length a matrix, ragged rows a \<^verbatim>\<open>ValueError\<close>.
\<close>

definition torch_tensor :: "'f list list \<Rightarrow> error + 'f tensor" where
  "torch_tensor rows =
     (case rows of
        [] \<Rightarrow> Inr (Tensor1 [])
      | r # rs \<Rightarrow> if list_all (\<lambda>x. length x = length r) rs then Inr (Tensor2 rows)
                  else Inl ValueError)"

text \<open>
  \<^verbatim>\<open>APIEmbeddingModel.encode(self, texts, **kwargs)\<close>, lines 178-186. The extra options
  are not used. A negative step gives an empty range.
\<close>

definition APIEmbeddingModel_encode ::
  "'f world \<Rightarrow> base_model \<Rightarrow> handle \<Rightarrow> pyval \<Rightarrow> texts \<Rightarrow> dict \<Rightarrow> 'f tensor outcome" where
  "APIEmbeddingModel_encode W b h batch_size txts kwargs =
    (let ts = (case txts of Str s \<Rightarrow> [Plain s] | Lst xs \<Rightarrow> xs)
     in case as_index batch_size of
          None \<Rightarrow> (b, [], Inl TypeError)
        | Some k \<Rightarrow>
            if k = 0 then (b, [], Inl ValueError)
            else
              (case embed_batches W h batch_size (nat k) ts 0 [] of
                 (ev, Inl e) \<Rightarrow> (b, ev, Inl e)
               | (ev, Inr embeddings) \<Rightarrow> (b, ev, torch_tensor embeddings)))"

definition APIEmbeddingModel_encode_queries ::
  "'f world \<Rightarrow> base_model \<Rightarrow> handle \<Rightarrow> pyval \<Rightarrow> texts \<Rightarrow> dict \<Rightarrow> 'f tensor outcome" where
  "APIEmbeddingModel_encode_queries W b h batch_size queries kwargs =
     APIEmbeddingModel_encode W b h batch_size queries kwargs"

definition APIEmbeddingModel_encode_corpus ::
  "'f world \<Rightarrow> base_model \<Rightarrow> handle \<Rightarrow> pyval \<Rightarrow> text_unit list \<Rightarrow> dict \<Rightarrow> 'f tensor outcome" where
  "APIEmbeddingModel_encode_corpus W b h batch_size corpus kwargs =
     (case input_texts corpus of
        Inl e \<Rightarrow> (b, [], Inl e)
      | Inr ts \<Rightarrow> APIEmbeddingModel_encode W b h batch_size (Lst ts) kwargs)"

section \<open>The methods every adapter inherits\<close>

text \<open>
  Dynamic dispatch of \<^verbatim>\<open>encode_queries\<close> and \<^verbatim>\<open>encode_corpus\<close>: the cross-encoder
  inherits the versions of lines 81-87, which raise \<^verbatim>\<open>NotImplementedError\<close>.
\<close>

fun encode_queries :: "'f world \<Rightarrow> adapter \<Rightarrow> texts \<Rightarrow> dict \<Rightarrow> 'f tensor outcome" where
  "encode_queries W (SentenceTransformerModel b h) queries kwargs =
     SentenceTransformerModel_encode_queries W b h queries kwargs"
| "encode_queries W (CrossEncoderModel b h) queries kwargs = (b, [], Inl NotImplementedError)"
| "encode_queries W (APIEmbeddingModel b h bs) queries kwargs =
     APIEmbeddingModel_encode_queries W b h bs queries kwargs"

fun encode_corpus :: "'f world \<Rightarrow> adapter \<Rightarrow> text_unit list \<Rightarrow> dict \<Rightarrow> 'f tensor outcome" where
  "encode_corpus W (SentenceTransformerModel b h) corpus kwargs =
     SentenceTransformerModel_encode_corpus W b h corpus kwargs"
| "encode_corpus W (CrossEncoderModel b h) corpus kwargs = (b, [], Inl NotImplementedError)"
| "encode_corpus W (APIEmbeddingModel b h bs) corpus kwargs =
     APIEmbeddingModel_encode_corpus W b h bs corpus kwargs"

text \<open>\<^verbatim>\<open>Tensor.tolist()\<close>: a number, a list of numbers or a list of lists.\<close>

datatype 'f floats = Num 'f | Flat "'f list" | Nested "'f list list"

fun tolist :: "'f tensor \<Rightarrow> 'f floats" where
  "tolist (Tensor0 x) = Num x"
| "tolist (Tensor1 xs) = Flat xs"
| "tolist (Tensor2 rows) = Nested rows"

text \<open>Lines 55-64 and 66-75.\<close>

definition embed_documents :: "'f world \<Rightarrow> adapter \<Rightarrow> text_unit list \<Rightarrow> 'f floats outcome" where
  "embed_documents W a txts =
     (case encode_corpus W a txts [] of
        (b, ev, Inl e) \<Rightarrow> (b, ev, Inl e)
      | (b, ev, Inr t) \<Rightarrow> (b, ev, Inr (tolist t)))"

definition embed_query :: "'f world \<Rightarrow> adapter \<Rightarrow> string \<Rightarrow> 'f floats outcome" where
  "embed_query W a text =
     (case encode_queries W a (Str text) [] of
        (b, ev, Inl e) \<Rightarrow> (b, ev, Inl e)
      | (b, ev, Inr t) \<Rightarrow> (b, ev, Inr (tolist t)))"

text \<open>The subscript \<^verbatim>\<open>[0]\<close> on a value that \<^verbatim>\<open>tolist\<close> returned.\<close>

fun item0 :: "'f floats \<Rightarrow> error + 'f floats" where
  "item0 (Num x) = Inl TypeError"
| "item0 (Flat []) = Inl IndexError"
| "item0 (Flat (x # xs)) = Inr (Num x)"
| "item0 (Nested []) = Inl IndexError"
| "item0 (Nested (r # rs)) = Inr (Flat r)"

section \<open>Reading the log and the adapters\<close>

fun handle_path :: "handle \<Rightarrow> pyval" where
  "handle_path (SentenceTransformer_of p c m l) = p"
| "handle_path (SentenceTransformer_modules p c m pm l) = p"
| "handle_path (CrossEncoder_of p l) = p"
| "handle_path (OpenAIEmbeddings_of p u k d) = p"

fun model_of :: "adapter \<Rightarrow> handle" where
  "model_of (SentenceTransformerModel b h) = h"
| "model_of (CrossEncoderModel b h) = h"
| "model_of (APIEmbeddingModel b h bs) = h"

fun is_download :: "event \<Rightarrow> bool" where
  "is_download (Download p r) = True"
| "is_download _ = False"

text \<open>
  The contiguous chunks \<^verbatim>\<open>texts[0:n], texts[n:2n], ...\<close> of a list, for a positive
  \<open>n\<close>: there are \<open>\<lceil>length texts / n\<rceil>\<close> of them.
\<close>

definition chunks :: "nat \<Rightarrow> 'a list \<Rightarrow> 'a list list" where
  "chunks n xs = map (\<lambda>k. take n (drop (k * n) xs)) [0 ..< (length xs + n - 1) div n]"

text \<open>
  A world for examples: one local directory exists, the hub resolves every non-empty
  identifier, every constructor succeeds, and the runtimes answer with the lengths of
  the texts they are given.
\<close>

definition text_len :: "text_unit \<Rightarrow> int" where
  "text_len x = (case x of Plain s \<Rightarrow> int (length s) | Doc d \<Rightarrow> 0)"

definition example_world :: "int world" where
  "example_world =
     \<lparr> path_exists = (\<lambda>p. p = ''/models/local''),
       download_model = (\<lambda>p r. if p = [] then Inl (Raised ''not found'') else Inr (''/cache/'' @ p)),
       construct = (\<lambda>h. None),
       model_encode = (\<lambda>h t p kw.
          Inr (IsTensor (case t of
                           Str s \<Rightarrow> Tensor1 [int (length s)]
                         | Lst xs \<Rightarrow> Tensor2 (map (\<lambda>x. [text_len x]) xs)))),
       model_predict = (\<lambda>h ss kw. Inr (IsTensor (Tensor1 (map (\<lambda>s. int (length s)) ss)))),
       model_embed_documents = (\<lambda>h ts c. Inr (map (\<lambda>x. [text_len x]) ts)) \<rparr>"

definition example_base :: base_model where
  "example_base =
     \<lparr> model_name_or_path = PStr ''m'', max_seq_length = PInt 512,
       model_kwargs = [(''trust_remote_code'', PBool True)],
       config_kwargs = [(''trust_remote_code'', PBool True)],
       encode_kwargs = [(''convert_to_tensor'', PBool True)],
       prompt = PStr ''query: '', revision = PStr ''master'' \<rparr>"

definition example_client :: handle where
  "example_client = OpenAIEmbeddings_of (PStr ''m'') PNone PNone PNone"

definition example_cross :: handle where
  "example_cross = CrossEncoder_of (PStr ''m'') (PInt 512)"

definition example_bi :: handle where
  "example_bi = SentenceTransformer_of (PStr ''m'') [(''trust_remote_code'', PBool True)]
     [(''trust_remote_code'', PBool True)] (PInt 512)"

text \<open>
  The words of the specification for a structured record: title and text joined by one
  blank and trimmed, an absent title counting as empty.
\<close>

definition title_text :: "(string \<times> string) list \<Rightarrow> string" where
  "title_text d =
     strip ((case map_of d ''title'' of None \<Rightarrow> [] | Some x \<Rightarrow> x) @ '' '' @
            (case map_of d ''text'' of None \<Rightarrow> [] | Some t \<Rightarrow> t))"

text \<open>
  The words of the specification for a triple: the document of a triple is its
  \<^verbatim>\<open>text\<close> field when it is a structured record, and the query gets the prompt in
  front.
\<close>

fun document_text :: "text_unit \<Rightarrow> text_unit" where
  "document_text (Plain s) = Plain s"
| "document_text (Doc d) = Plain (case map_of d ''text'' of None \<Rightarrow> [] | Some t \<Rightarrow> t)"

fun has_text :: "text_unit \<Rightarrow> bool" where
  "has_text (Plain s) = True"
| "has_text (Doc d) = (map_of d ''text'' \<noteq> None)"

definition triple :: "string \<times> text_unit \<times> text_unit \<Rightarrow> text_unit list" where
  "triple t = (case t of (q, d, i) \<Rightarrow> [Plain q, d, i])"

definition prompted_pair :: "string \<Rightarrow> string \<times> text_unit \<times> text_unit \<Rightarrow> text_unit list" where
  "prompted_pair p t = (case t of (q, d, i) \<Rightarrow> [Plain (p @ q), document_text d])"

text \<open>Option groups in which the caller sets the forced keys to other values.\<close>

definition hostile_options :: dict where
  "hostile_options =
     [(''model_kwargs'', PDict [(''trust_remote_code'', PBool False)]),
      (''config_kwargs'', PDict [(''trust_remote_code'', PNone), (''cache_dir'', PStr ''/tmp'')]),
      (''encode_kwargs'', PDict [(''batch_size'', PInt 4), (''convert_to_tensor'', PBool False)])]"

section \<open>Construction and the factory\<close>

lemma BaseModel_init_flags:
  "BaseModel_init p kw = Inr b \<Longrightarrow>
     map_of (model_kwargs b) ''trust_remote_code'' = Some (PBool True) \<and>
     map_of (config_kwargs b) ''trust_remote_code'' = Some (PBool True) \<and>
     map_of (encode_kwargs b) ''convert_to_tensor'' = Some (PBool True)"
  by (auto simp: BaseModel_init_def update_conv' split: if_splits pyval.splits)

lemma BaseModel_init_path:
  "BaseModel_init p kw = Inr b \<Longrightarrow> model_name_or_path b = p"
  by (auto simp: BaseModel_init_def split: if_splits pyval.splits)


lemma BaseModel_init_dict_groups:
  "\<not> has_key kw ''model_name_or_path'' \<Longrightarrow>
   dict_get kw ''model_kwargs'' (PDict []) = PDict mk \<Longrightarrow>
   dict_get kw ''config_kwargs'' (PDict []) = PDict ck \<Longrightarrow>
   dict_get kw ''encode_kwargs'' (PDict []) = PDict ek \<Longrightarrow>
     \<exists>b. BaseModel_init p kw = Inr b \<and>
       model_kwargs b = AList.update ''trust_remote_code'' (PBool True) mk \<and>
       config_kwargs b = AList.update ''trust_remote_code'' (PBool True) ck \<and>
       encode_kwargs b = AList.update ''convert_to_tensor'' (PBool True) ek"
  by (simp add: BaseModel_init_def)

lemma SentenceTransformerModel_init_Inr:
  "snd (SentenceTransformerModel_init W p kw) = Inr a \<Longrightarrow>
     \<exists>b h. a = SentenceTransformerModel b h \<and>
       BaseModel_init p (AList.delete ''pooling_mode'' kw) = Inr b \<and>
       fst (SentenceTransformerModel_init W p kw) = [Construct h] \<and> handle_path h = p"
  by (auto simp: SentenceTransformerModel_init_def Let_def build_def BaseModel_init_path
      split: if_splits sum.splits option.splits)

lemma CrossEncoderModel_init_Inr:
  "snd (CrossEncoderModel_init W p kw) = Inr a \<Longrightarrow>
     \<exists>b h. a = CrossEncoderModel b h \<and> BaseModel_init p kw = Inr b \<and>
       fst (CrossEncoderModel_init W p kw) = [Construct h] \<and> handle_path h = p"
  by (auto simp: CrossEncoderModel_init_def Let_def build_def BaseModel_init_path
      split: if_splits sum.splits option.splits)

lemma APIEmbeddingModel_init_Inr:
  "snd (APIEmbeddingModel_init W kw) = Inr a \<Longrightarrow>
     \<exists>b h bs. a = APIEmbeddingModel b h bs \<and>
       BaseModel_init (dict_get kw ''model_name'' PNone) kw = Inr b \<and>
       fst (APIEmbeddingModel_init W kw) = [Construct h] \<and>
       handle_path h = dict_get kw ''model_name'' PNone"
  by (auto simp: APIEmbeddingModel_init_def Let_def split: if_splits sum.splits option.splits)

lemma APIEmbeddingModel_init_events:
  "\<not> list_ex is_download (fst (APIEmbeddingModel_init W kw))"
  by (simp add: APIEmbeddingModel_init_def Let_def)

lemma SentenceTransformerModel_init_events:
  "list_all (\<lambda>e. \<exists>h. e = Construct h \<and> handle_path h = p) (fst (SentenceTransformerModel_init W p kw))"
  by (auto simp: SentenceTransformerModel_init_def Let_def build_def BaseModel_init_path
      split: if_splits sum.splits option.splits)

lemma CrossEncoderModel_init_events:
  "list_all (\<lambda>e. \<exists>h. e = Construct h \<and> handle_path h = p) (fst (CrossEncoderModel_init W p kw))"
  by (auto simp: CrossEncoderModel_init_def Let_def build_def BaseModel_init_path
      split: if_splits sum.splits option.splits)

text \<open>
  C7. Each of the three constructors runs \<open>BaseModel_init\<close>; whenever one of them
  returns an adapter, the stored model-construction and config-construction options map
  \<^verbatim>\<open>trust_remote_code\<close> to \<^verbatim>\<open>True\<close> and the stored encode-time options map
  \<^verbatim>\<open>convert_to_tensor\<close> to \<^verbatim>\<open>True\<close>, whatever the caller supplied for these keys.
\<close>

theorem forced_flags_after_construction:
  "snd (SentenceTransformerModel_init W p kw) = Inr a \<or>
   snd (CrossEncoderModel_init W p kw) = Inr a \<or>
   snd (APIEmbeddingModel_init W kw) = Inr a \<Longrightarrow>
     map_of (model_kwargs (base_of a)) ''trust_remote_code'' = Some (PBool True) \<and>
     map_of (config_kwargs (base_of a)) ''trust_remote_code'' = Some (PBool True) \<and>
     map_of (encode_kwargs (base_of a)) ''convert_to_tensor'' = Some (PBool True)"
proof (elim disjE)
  assume "snd (SentenceTransformerModel_init W p kw) = Inr a"
  then obtain b h where "a = SentenceTransformerModel b h"
    "BaseModel_init p (AList.delete ''pooling_mode'' kw) = Inr b"
    using SentenceTransformerModel_init_Inr by blast
  then show ?thesis using BaseModel_init_flags by simp
next
  assume "snd (CrossEncoderModel_init W p kw) = Inr a"
  then obtain b h where "a = CrossEncoderModel b h" "BaseModel_init p kw = Inr b"
    using CrossEncoderModel_init_Inr by blast
  then show ?thesis using BaseModel_init_flags by simp
next
  assume "snd (APIEmbeddingModel_init W kw) = Inr a"
  then obtain b h bs where "a = APIEmbeddingModel b h bs"
    "BaseModel_init (dict_get kw ''model_name'' PNone) kw = Inr b"
    using APIEmbeddingModel_init_Inr by blast
  then show ?thesis using BaseModel_init_flags by simp
qed

lemma hostile_bi:
  "snd (SentenceTransformerModel_init example_world (PStr ''m'') hostile_options) =
     Inr (SentenceTransformerModel
       \<lparr> model_name_or_path = PStr ''m'', max_seq_length = PInt 512,
         model_kwargs = [(''trust_remote_code'', PBool True)],
         config_kwargs = [(''trust_remote_code'', PBool True), (''cache_dir'', PStr ''/tmp'')],
         encode_kwargs = [(''batch_size'', PInt 4), (''convert_to_tensor'', PBool True)],
         prompt = PStr [], revision = PStr ''master'' \<rparr>
       (SentenceTransformer_of (PStr ''m'')
          [(''trust_remote_code'', PBool True), (''cache_dir'', PStr ''/tmp'')]
          [(''trust_remote_code'', PBool True)] (PInt 512)))"
  by (simp add: SentenceTransformerModel_init_def hostile_options_def BaseModel_init_def
      dict_get_def has_key_def build_def example_world_def)

theorem forced_flags_after_construction_witness:
  "snd (SentenceTransformerModel_init example_world (PStr ''m'') hostile_options) =
     Inr (SentenceTransformerModel
       \<lparr> model_name_or_path = PStr ''m'', max_seq_length = PInt 512,
         model_kwargs = [(''trust_remote_code'', PBool True)],
         config_kwargs = [(''trust_remote_code'', PBool True), (''cache_dir'', PStr ''/tmp'')],
         encode_kwargs = [(''batch_size'', PInt 4), (''convert_to_tensor'', PBool True)],
         prompt = PStr [], revision = PStr ''master'' \<rparr>
       (SentenceTransformer_of (PStr ''m'')
          [(''trust_remote_code'', PBool True), (''cache_dir'', PStr ''/tmp'')]
          [(''trust_remote_code'', PBool True)] (PInt 512))) \<and>
   map_of [(''trust_remote_code'', PBool True)] ''trust_remote_code'' = Some (PBool True) \<and>
   map_of [(''trust_remote_code'', PBool True), (''cache_dir'', PStr ''/tmp'')] ''trust_remote_code''
     = Some (PBool True) \<and>
   map_of [(''batch_size'', PInt 4), (''convert_to_tensor'', PBool True)] ''convert_to_tensor''
     = Some (PBool True)"
proof -
  note h = hostile_bi
  from forced_flags_after_construction [OF disjI1, OF h] h show ?thesis by simp
qed

text \<open>
  C1. When the option bag holds a truthy \<^verbatim>\<open>model_name\<close>, \<open>load\<close> is the construction
  of the remote adapter on the option bag: every adapter it returns is an
  \<open>APIEmbeddingModel\<close>, never a bi-encoder or a cross-encoder, for every path, flag and
  hub, and nothing is downloaded.
\<close>

theorem load_remote_precedence:
  "truthy (dict_get kwargs ''model_name'' PNone) \<Longrightarrow>
     load W path is_cross_encoder hub rv kwargs = APIEmbeddingModel_init W kwargs \<and>
     (\<forall>a. snd (load W path is_cross_encoder hub rv kwargs) = Inr a \<longrightarrow>
            is_api a \<and> \<not> is_bi a \<and> \<not> is_cross a) \<and>
     \<not> list_ex is_download (fst (load W path is_cross_encoder hub rv kwargs))"
proof -
  assume t: "truthy (dict_get kwargs ''model_name'' PNone)"
  then have eq: "load W path is_cross_encoder hub rv kwargs = APIEmbeddingModel_init W kwargs"
    by (simp add: load_def)
  have "is_api a \<and> \<not> is_bi a \<and> \<not> is_cross a" if "snd (APIEmbeddingModel_init W kwargs) = Inr a" for a
    using APIEmbeddingModel_init_Inr [OF that] by auto
  with eq APIEmbeddingModel_init_events [of W kwargs] show ?thesis by simp
qed

theorem load_remote_precedence_witness:
  "truthy (dict_get [(''model_name'', PStr ''text-embedding-v3''), (''api_key'', PStr ''k'')] ''model_name'' PNone) \<and>
   snd (load example_world ''/models/local'' True MODELSCOPE (PStr ''master'')
          [(''model_name'', PStr ''text-embedding-v3''), (''api_key'', PStr ''k'')]) =
     Inr (APIEmbeddingModel
       \<lparr> model_name_or_path = PStr ''text-embedding-v3'', max_seq_length = PInt 512,
         model_kwargs = [(''trust_remote_code'', PBool True)],
         config_kwargs = [(''trust_remote_code'', PBool True)],
         encode_kwargs = [(''convert_to_tensor'', PBool True)],
         prompt = PStr [], revision = PStr ''master'' \<rparr>
       (OpenAIEmbeddings_of (PStr ''text-embedding-v3'') PNone (PStr ''k'') PNone) (PInt 10))"
proof -
  have t: "truthy (dict_get [(''model_name'', PStr ''text-embedding-v3''), (''api_key'', PStr ''k'')]
             ''model_name'' PNone)"
    by (simp add: dict_get_def)
  from load_remote_precedence [OF t, of example_world "''/models/local''" True MODELSCOPE "PStr ''master''"]
  have "load example_world ''/models/local'' True MODELSCOPE (PStr ''master'')
          [(''model_name'', PStr ''text-embedding-v3''), (''api_key'', PStr ''k'')] =
        APIEmbeddingModel_init example_world
          [(''model_name'', PStr ''text-embedding-v3''), (''api_key'', PStr ''k'')]"
    by simp
  with t show ?thesis
    by (simp add: APIEmbeddingModel_init_def BaseModel_init_def dict_get_def has_key_def
        example_world_def Let_def)
qed

lemma local_init_log:
  "(ev, r) = (if c then CrossEncoderModel_init W p kw else SentenceTransformerModel_init W p kw) \<Longrightarrow>
     list_all (\<lambda>e. \<exists>h. e = Construct h \<and> handle_path h = p) ev \<and>
     (\<forall>a. r = Inr a \<longrightarrow> ev = [Construct (model_of a)] \<and> model_name_or_path (base_of a) = p)"
  using CrossEncoderModel_init_events [of p W kw] SentenceTransformerModel_init_events [of p W kw]
    CrossEncoderModel_init_Inr [of W p kw] SentenceTransformerModel_init_Inr [of W p kw]
    BaseModel_init_path
  by (cases c; cases "CrossEncoderModel_init W p kw"; cases "SentenceTransformerModel_init W p kw")
     fastforce+

lemma constructs_no_download:
  "list_all (\<lambda>e. \<exists>h. e = Construct h \<and> handle_path h = p) ev \<Longrightarrow> filter is_download ev = []"
  by (induction ev) auto

lemma load_local:
  "\<not> truthy (dict_get kwargs ''model_name'' PNone) \<Longrightarrow>
   load W path c hub rv kwargs =
     (if \<not> path_exists W path \<and> hub = MODELSCOPE then
        (case download_model W path rv of
           Inl e \<Rightarrow> ([Download path rv], Inl e)
         | Inr p \<Rightarrow>
             if has_key kwargs ''revision'' then ([Download path rv], Inl TypeError)
             else (Download path rv #
                     fst (if c then CrossEncoderModel_init W (PStr p) ((''revision'', rv) # kwargs)
                          else SentenceTransformerModel_init W (PStr p) ((''revision'', rv) # kwargs)),
                   snd (if c then CrossEncoderModel_init W (PStr p) ((''revision'', rv) # kwargs)
                        else SentenceTransformerModel_init W (PStr p) ((''revision'', rv) # kwargs))))
      else if has_key kwargs ''revision'' then ([], Inl TypeError)
      else (if c then CrossEncoderModel_init W (PStr path) ((''revision'', rv) # kwargs)
            else SentenceTransformerModel_init W (PStr path) ((''revision'', rv) # kwargs)))"
  by (simp add: load_def Let_def split: sum.splits prod.splits)

text \<open>
  C2. With no remote model name and a path that does not exist locally: when the hub is
  ModelScope, the log of \<open>load\<close> holds exactly one download, at its head; a download that
  raises ends the call, and otherwise everything after it is the construction of the
  adapter on the path the download returned, which is also the identifier the adapter
  stores. When the hub is anything else, nothing is downloaded and the constructor gets
  the path as it was given.
\<close>

theorem load_download_trigger:
  assumes "\<not> truthy (dict_get kwargs ''model_name'' PNone)" and "\<not> path_exists W path"
  shows "(hub = MODELSCOPE \<longrightarrow>
            length (filter is_download (fst (load W path c hub rv kwargs))) = 1 \<and>
            (case download_model W path rv of
               Inl e \<Rightarrow> load W path c hub rv kwargs = ([Download path rv], Inl e)
             | Inr p \<Rightarrow>
                 (\<exists>ev. fst (load W path c hub rv kwargs) = Download path rv # ev \<and>
                    list_all (\<lambda>e. \<exists>h. e = Construct h \<and> handle_path h = PStr p) ev \<and>
                    (\<forall>a. snd (load W path c hub rv kwargs) = Inr a \<longrightarrow>
                       ev = [Construct (model_of a)] \<and>
                       model_name_or_path (base_of a) = PStr p)))) \<and>
         (hub \<noteq> MODELSCOPE \<longrightarrow>
            filter is_download (fst (load W path c hub rv kwargs)) = [] \<and>
            list_all (\<lambda>e. \<exists>h. e = Construct h \<and> handle_path h = PStr path)
              (fst (load W path c hub rv kwargs)) \<and>
            (\<forall>a. snd (load W path c hub rv kwargs) = Inr a \<longrightarrow>
               fst (load W path c hub rv kwargs) = [Construct (model_of a)] \<and>
               model_name_or_path (base_of a) = PStr path))"
proof (intro conjI impI)
  let ?L = "\<lambda>p. if c then CrossEncoderModel_init W (PStr p) ((''revision'', rv) # kwargs)
            else SentenceTransformerModel_init W (PStr p) ((''revision'', rv) # kwargs)"
  have loc: "list_all (\<lambda>e. \<exists>h. e = Construct h \<and> handle_path h = PStr p) (fst (?L p)) \<and>
     (\<forall>a. snd (?L p) = Inr a \<longrightarrow> fst (?L p) = [Construct (model_of a)] \<and>
        model_name_or_path (base_of a) = PStr p)" for p
    using local_init_log [of "fst (?L p)" "snd (?L p)" c W "PStr p" "(''revision'', rv) # kwargs"]
    by simp
  {
    assume hub: "hub = MODELSCOPE"
    show "length (filter is_download (fst (load W path c hub rv kwargs))) = 1"
    proof (cases "download_model W path rv")
      case (Inl e)
      then show ?thesis using assms hub by (simp add: load_local)
    next
      case (Inr p)
      then show ?thesis using assms hub loc [of p] constructs_no_download [of "PStr p" "fst (?L p)"]
        by (simp add: load_local)
    qed
    show "case download_model W path rv of
               Inl e \<Rightarrow> load W path c hub rv kwargs = ([Download path rv], Inl e)
             | Inr p \<Rightarrow>
                 (\<exists>ev. fst (load W path c hub rv kwargs) = Download path rv # ev \<and>
                    list_all (\<lambda>e. \<exists>h. e = Construct h \<and> handle_path h = PStr p) ev \<and>
                    (\<forall>a. snd (load W path c hub rv kwargs) = Inr a \<longrightarrow>
                       ev = [Construct (model_of a)] \<and>
                       model_name_or_path (base_of a) = PStr p))"
    proof (cases "download_model W path rv")
      case (Inl e)
      then show ?thesis using assms hub by (simp add: load_local)
    next
      case (Inr p)
      then show ?thesis using assms hub loc [of p]
        by (simp add: load_local)
    qed
  }
  {
    assume hub: "hub \<noteq> MODELSCOPE"
    from assms hub have eq: "load W path c hub rv kwargs =
        (if has_key kwargs ''revision'' then ([], Inl TypeError) else ?L path)"
      by (simp add: load_local)
    show "list_all (\<lambda>e. \<exists>h. e = Construct h \<and> handle_path h = PStr path)
              (fst (load W path c hub rv kwargs))"
      using eq loc [of path] by simp
    then show "filter is_download (fst (load W path c hub rv kwargs)) = []"
      by (rule constructs_no_download)
    show "\<forall>a. snd (load W path c hub rv kwargs) = Inr a \<longrightarrow>
               fst (load W path c hub rv kwargs) = [Construct (model_of a)] \<and>
               model_name_or_path (base_of a) = PStr path"
      using eq loc [of path] by simp
  }
qed


theorem load_download_trigger_witness:
  "\<not> truthy (dict_get [] ''model_name'' PNone) \<and> \<not> path_exists example_world ''BAAI/bge'' \<and>
   load example_world ''BAAI/bge'' True MODELSCOPE (PStr ''v1'') [] =
     ([Download ''BAAI/bge'' (PStr ''v1''),
       Construct (CrossEncoder_of (PStr ''/cache/BAAI/bge'') (PInt 512))],
      Inr (CrossEncoderModel
        \<lparr> model_name_or_path = PStr ''/cache/BAAI/bge'', max_seq_length = PInt 512,
          model_kwargs = [(''trust_remote_code'', PBool True)],
          config_kwargs = [(''trust_remote_code'', PBool True)],
          encode_kwargs = [(''convert_to_tensor'', PBool True)],
          prompt = PStr [], revision = PStr ''v1'' \<rparr>
        (CrossEncoder_of (PStr ''/cache/BAAI/bge'') (PInt 512)))) \<and>
   load example_world ''BAAI/bge'' True ''huggingface'' (PStr ''v1'') [] =
     ([Construct (CrossEncoder_of (PStr ''BAAI/bge'') (PInt 512))],
      Inr (CrossEncoderModel
        \<lparr> model_name_or_path = PStr ''BAAI/bge'', max_seq_length = PInt 512,
          model_kwargs = [(''trust_remote_code'', PBool True)],
          config_kwargs = [(''trust_remote_code'', PBool True)],
          encode_kwargs = [(''convert_to_tensor'', PBool True)],
          prompt = PStr [], revision = PStr ''v1'' \<rparr>
        (CrossEncoder_of (PStr ''BAAI/bge'') (PInt 512))))"
proof -
  have h1: "\<not> truthy (dict_get [] ''model_name'' PNone)"
    by (simp add: dict_get_def)
  have h2: "\<not> path_exists example_world ''BAAI/bge''"
    by (simp add: example_world_def)
  have d: "download_model example_world ''BAAI/bge'' (PStr ''v1'') = Inr ''/cache/BAAI/bge''"
    by (simp add: example_world_def)
  have c: "CrossEncoderModel_init example_world (PStr p) [(''revision'', PStr ''v1'')] =
     ([Construct (CrossEncoder_of (PStr p) (PInt 512))],
      Inr (CrossEncoderModel
        \<lparr> model_name_or_path = PStr p, max_seq_length = PInt 512,
          model_kwargs = [(''trust_remote_code'', PBool True)],
          config_kwargs = [(''trust_remote_code'', PBool True)],
          encode_kwargs = [(''convert_to_tensor'', PBool True)],
          prompt = PStr [], revision = PStr ''v1'' \<rparr>
        (CrossEncoder_of (PStr p) (PInt 512))))" for p
    by (simp add: CrossEncoderModel_init_def BaseModel_init_def dict_get_def has_key_def
        build_def example_world_def)
  have ms: "''huggingface'' \<noteq> MODELSCOPE"
    by (simp add: MODELSCOPE_def)
  from load_download_trigger [OF h1 h2, where c = True and hub = MODELSCOPE and rv = "PStr ''v1''"]
       load_download_trigger [OF h1 h2, where c = True and hub = "''huggingface''" and rv = "PStr ''v1''"]
       h1 h2 d c ms
  show ?thesis
    by (simp add: load_local has_key_def)
qed








section \<open>Batching of the remote adapter\<close>

lemma chunk_index_bound:
  "0 < n \<Longrightarrow> k * n < L \<longleftrightarrow> k < (L + n - 1) div n" for n k L :: nat
proof -
  assume n: "0 < n"
  have "k < (L + n - 1) div n \<longleftrightarrow> Suc k \<le> (L + n - 1) div n" by auto
  also have "\<dots> \<longleftrightarrow> Suc k * n \<le> L + n - 1"
    using n by (simp add: less_eq_div_iff_mult_less_eq)
  also have "\<dots> \<longleftrightarrow> k * n < L" using n by auto
  finally show ?thesis by simp
qed

lemma embed_batches_from:
  assumes n: "0 < n"
    and ok: "\<And>c. model_embed_documents W h c bs = Inr (resp c)"
  shows "embed_batches W h bs n txts (k * n) acc =
     (map (\<lambda>j. EmbedDocuments h (take n (drop (j * n) txts)) bs) [k ..< (length txts + n - 1) div n],
      Inr (acc @ concat (map (\<lambda>j. resp (take n (drop (j * n) txts))) [k ..< (length txts + n - 1) div n])))"
proof (induction "(length txts + n - 1) div n - k" arbitrary: k acc)
  case 0
  then have "\<not> k < (length txts + n - 1) div n" by simp
  with n have "\<not> k * n < length txts" by (simp add: chunk_index_bound)
  then show ?case using 0 by (subst embed_batches.simps) simp
next
  case (Suc d)
  then have lt: "k < (length txts + n - 1) div n" by simp
  with n have in_range: "k * n < length txts" by (simp add: chunk_index_bound)
  from Suc have "d = (length txts + n - 1) div n - Suc k" by simp
  from Suc.hyps(1) [OF this]
  have IH: "embed_batches W h bs n txts (k * n + n) (acc @ resp (take n (drop (k * n) txts))) =
     (map (\<lambda>j. EmbedDocuments h (take n (drop (j * n) txts)) bs) [Suc k ..< (length txts + n - 1) div n],
      Inr ((acc @ resp (take n (drop (k * n) txts))) @
           concat (map (\<lambda>j. resp (take n (drop (j * n) txts))) [Suc k ..< (length txts + n - 1) div n])))"
    by (simp add: add.commute)
  show ?case
    using in_range n lt
    by (subst embed_batches.simps) (simp add: ok IH upt_conv_Cons)
qed

lemma length_chunks: "length (chunks n xs) = (length xs + n - 1) div n"
  by (simp add: chunks_def)

lemma concat_chunks_from:
  "0 < n \<Longrightarrow> concat (map (\<lambda>j. take n (drop (j * n) xs)) [k ..< (length xs + n - 1) div n]) = drop (k * n) xs"
proof (induction "(length xs + n - 1) div n - k" arbitrary: k)
  case 0
  then have "\<not> k < (length xs + n - 1) div n" by simp
  with 0 have "\<not> k * n < length xs" by (simp add: chunk_index_bound)
  with 0 show ?case by simp
next
  case (Suc d)
  then have lt: "k < (length xs + n - 1) div n" by simp
  from Suc have "d = (length xs + n - 1) div n - Suc k" by simp
  from Suc.hyps(1) [OF this Suc.prems]
  have "concat (map (\<lambda>j. take n (drop (j * n) xs)) [Suc k ..< (length xs + n - 1) div n]) = drop (n + k * n) xs"
    by simp
  moreover have "take n (drop (k * n) xs) @ drop (n + k * n) xs = drop (k * n) xs"
    by (metis append_take_drop_id drop_drop)
  ultimately show ?case using lt by (simp add: upt_conv_Cons)
qed

lemma concat_chunks: "0 < n \<Longrightarrow> concat (chunks n xs) = xs"
  using concat_chunks_from [of n xs 0] by (simp add: chunks_def)

lemma chunks_example: "chunks 2 [a, b, c, d, e] = [[a, b], [c, d], [e]]"
  by (simp add: chunks_def upt_conv_Cons)

text \<open>
  C3. With a positive batch size \<open>k\<close> and a client that answers every call,
  \<open>APIEmbeddingModel_encode\<close> on a list of texts calls the client exactly once per
  contiguous chunk \<^verbatim>\<open>texts[0:k], texts[k:2k], ...\<close>, in that order: \<open>\<lceil>N / k\<rceil>\<close> calls
  for \<open>N\<close> texts, the chunks together being the input. The answers are appended in
  chunk order and stacked; when the client answers one vector per text, the rows of the
  result are the vectors of the texts in input order.
\<close>

theorem api_encode_batches:
  assumes "as_index bs = Some k" and "0 < k"
    and "\<And>c. model_embed_documents W h c bs = Inr (resp c)"
  shows "fst (snd (APIEmbeddingModel_encode W b h bs (Lst txts) kwargs)) =
           map (\<lambda>c. EmbedDocuments h c bs) (chunks (nat k) txts) \<and>
         length (chunks (nat k) txts) = (length txts + nat k - 1) div nat k \<and>
         concat (chunks (nat k) txts) = txts \<and>
         snd (snd (APIEmbeddingModel_encode W b h bs (Lst txts) kwargs)) =
           torch_tensor (concat (map resp (chunks (nat k) txts))) \<and>
         ((\<forall>c. resp c = map f c) \<longrightarrow>
            snd (snd (APIEmbeddingModel_encode W b h bs (Lst txts) kwargs)) =
              torch_tensor (map f txts))"
proof -
  from assms(2) have n: "0 < nat k" by simp
  have run: "embed_batches W h bs (nat k) txts 0 [] =
      (map (\<lambda>c. EmbedDocuments h c bs) (chunks (nat k) txts),
       Inr (concat (map resp (chunks (nat k) txts))))"
    using embed_batches_from [OF n assms(3), of txts 0 "[]"]
    by (simp add: chunks_def comp_def)
  have enc: "APIEmbeddingModel_encode W b h bs (Lst txts) kwargs =
      (b, map (\<lambda>c. EmbedDocuments h c bs) (chunks (nat k) txts),
       torch_tensor (concat (map resp (chunks (nat k) txts))))"
    using assms(1,2) by (simp add: APIEmbeddingModel_encode_def run)
  have "concat (map resp (chunks (nat k) txts)) = map f txts" if "\<forall>c. resp c = map f c"
  proof -
    from that have "resp = map f" by (simp add: fun_eq_iff)
    then have "concat (map resp (chunks (nat k) txts)) = map f (concat (chunks (nat k) txts))"
      by (simp add: map_concat)
    then show ?thesis by (simp add: concat_chunks [OF n])
  qed
  with enc n show ?thesis
    by (simp add: length_chunks concat_chunks)
qed

theorem api_encode_batches_witness:
  "as_index (PInt 2) = Some 2 \<and> (0::int) < 2 \<and>
   (\<forall>c. model_embed_documents example_world example_client c (PInt 2) = Inr (map (\<lambda>x. [text_len x]) c)) \<and>
   fst (snd (APIEmbeddingModel_encode example_world example_base example_client (PInt 2)
      (Lst [Plain ''a'', Plain ''bb'', Plain ''ccc'', Plain ''dddd'', Plain ''eeeee'']) [])) =
     [EmbedDocuments example_client [Plain ''a'', Plain ''bb''] (PInt 2),
      EmbedDocuments example_client [Plain ''ccc'', Plain ''dddd''] (PInt 2),
      EmbedDocuments example_client [Plain ''eeeee''] (PInt 2)] \<and>
   snd (snd (APIEmbeddingModel_encode example_world example_base example_client (PInt 2)
      (Lst [Plain ''a'', Plain ''bb'', Plain ''ccc'', Plain ''dddd'', Plain ''eeeee'']) [])) =
     Inr (Tensor2 [[1], [2], [3], [4], [5]])"
proof -
  have h1: "as_index (PInt 2) = Some 2" by simp
  have h2: "(0::int) < 2" by simp
  have h3: "model_embed_documents example_world example_client c (PInt 2) =
      Inr (map (\<lambda>x. [text_len x]) c)" for c
    by (simp add: example_world_def)
  from api_encode_batches [OF h1 h2 h3, where f = "\<lambda>x. [text_len x]" and b = example_base
      and kwargs = "[]"
      and txts = "[Plain ''a'', Plain ''bb'', Plain ''ccc'', Plain ''dddd'', Plain ''eeeee'']"]
    h3
  show ?thesis
    by (simp add: chunks_example torch_tensor_def text_len_def)
qed

section \<open>The cross-encoder's triples\<close>

lemma unwrap_triple_length:
  "length s \<noteq> 3 \<Longrightarrow> unwrap_triple p s = Inl ValueError"
  by (cases "(p, s)" rule: unwrap_triple.cases) auto

lemma processed_sentences_shape:
  "processed_sentences p xs = Inr ys \<Longrightarrow> \<forall>s\<in>set xs. length s = 3"
proof (induction xs arbitrary: ys)
  case Nil
  then show ?case by simp
next
  case (Cons x xs)
  from Cons.prems obtain y ys' where y: "unwrap_triple p x = Inr y"
    and r: "processed_sentences p xs = Inr ys'"
    by (auto split: sum.splits)
  from y have "length x = 3"
    using unwrap_triple_length [of x p] by auto
  with Cons.IH [OF r] show ?case by simp
qed

lemma processed_sentences_bad_shape:
  "\<exists>s\<in>set xs. length s \<noteq> 3 \<Longrightarrow> isl (processed_sentences p xs)"
  using processed_sentences_shape [of p xs]
  by (cases "processed_sentences p xs") auto

lemma unwrap_triple_prompted:
  "has_text d \<Longrightarrow> unwrap_triple (PStr p) (triple (q, d, i)) = Inr (prompted_pair p (q, d, i))"
  by (cases d) (auto simp: triple_def prompted_pair_def)

lemma processed_sentences_prompted:
  "\<forall>(q, d, i)\<in>set ts. has_text d \<Longrightarrow>
     processed_sentences (PStr p) (map triple ts) = Inr (map (prompted_pair p) ts)"
  by (induction ts) (auto simp: unwrap_triple_prompted)

lemma length_triple: "length (triple t) = 3"
  by (cases t) (simp add: triple_def)

text \<open>
  C4. On a non-empty list of triples (query, document, instruction), with a string
  prompt and every structured document holding a \<^verbatim>\<open>text\<close> field, the runtime's
  \<^verbatim>\<open>predict\<close> is called once, with the pairs (prompt + query, document), a structured
  document replaced by its \<^verbatim>\<open>text\<close>. On a non-empty list of two-element pairs it
  is called once with the input as it is.
\<close>

theorem predict_unwraps_triples:
  "(ts \<noteq> [] \<and> prompt b = PStr p \<and> (\<forall>(q, d, i)\<in>set ts. has_text d) \<longrightarrow>
      CrossEncoderModel_predict W b h (map triple ts) kwargs =
        (b\<lparr>encode_kwargs := dict_update (encode_kwargs b) kwargs\<rparr>,
         [Predict h (map (prompted_pair p) ts) (dict_update (encode_kwargs b) kwargs)],
         assert_tensor (model_predict W h (map (prompted_pair p) ts)
                          (dict_update (encode_kwargs b) kwargs)))) \<and>
   (pairs \<noteq> [] \<and> (\<forall>s\<in>set pairs. length s = 2) \<longrightarrow>
      CrossEncoderModel_predict W b h pairs kwargs =
        (b\<lparr>encode_kwargs := dict_update (encode_kwargs b) kwargs\<rparr>,
         [Predict h pairs (dict_update (encode_kwargs b) kwargs)],
         assert_tensor (model_predict W h pairs (dict_update (encode_kwargs b) kwargs))))"
proof (intro conjI impI)
  assume a: "ts \<noteq> [] \<and> prompt b = PStr p \<and> (\<forall>(q, d, i)\<in>set ts. has_text d)"
  then obtain t ts' where ts: "ts = t # ts'" by (cases ts) auto
  from a have "processed_sentences (PStr p) (map triple ts) = Inr (map (prompted_pair p) ts)"
    by (simp add: processed_sentences_prompted)
  with a ts show "CrossEncoderModel_predict W b h (map triple ts) kwargs =
        (b\<lparr>encode_kwargs := dict_update (encode_kwargs b) kwargs\<rparr>,
         [Predict h (map (prompted_pair p) ts) (dict_update (encode_kwargs b) kwargs)],
         assert_tensor (model_predict W h (map (prompted_pair p) ts)
                          (dict_update (encode_kwargs b) kwargs)))"
    by (simp add: CrossEncoderModel_predict_def Let_def length_triple)
next
  assume a: "pairs \<noteq> [] \<and> (\<forall>s\<in>set pairs. length s = 2)"
  then obtain s ss where "pairs = s # ss" "length s = 2" by (cases pairs) auto
  then show "CrossEncoderModel_predict W b h pairs kwargs =
        (b\<lparr>encode_kwargs := dict_update (encode_kwargs b) kwargs\<rparr>,
         [Predict h pairs (dict_update (encode_kwargs b) kwargs)],
         assert_tensor (model_predict W h pairs (dict_update (encode_kwargs b) kwargs)))"
    by (simp add: CrossEncoderModel_predict_def Let_def)
qed

text \<open>
  C10. \<open>CrossEncoderModel_predict\<close> decides on the first element alone. An empty list
  raises \<^verbatim>\<open>IndexError\<close> before any call. When the first element has length 3 every
  element is unwrapped as a triple, so a later element of another length makes the call
  fail before the runtime is reached; when the first element has any other length the
  whole list reaches the runtime unchanged, whatever the later elements are.
\<close>

theorem predict_branch_on_first_element:
  "fst (snd (CrossEncoderModel_predict W b h [] kwargs)) = [] \<and>
   snd (snd (CrossEncoderModel_predict W b h [] kwargs)) = Inl IndexError \<and>
   (length s0 = 3 \<longrightarrow>
      CrossEncoderModel_predict W b h (s0 # rest) kwargs =
        (case processed_sentences (prompt b) (s0 # rest) of
           Inl e \<Rightarrow> (b\<lparr>encode_kwargs := dict_update (encode_kwargs b) kwargs\<rparr>, [], Inl e)
         | Inr ss \<Rightarrow>
             (b\<lparr>encode_kwargs := dict_update (encode_kwargs b) kwargs\<rparr>,
              [Predict h ss (dict_update (encode_kwargs b) kwargs)],
              assert_tensor (model_predict W h ss (dict_update (encode_kwargs b) kwargs)))) \<and>
      ((\<exists>s\<in>set rest. length s \<noteq> 3) \<longrightarrow>
         fst (snd (CrossEncoderModel_predict W b h (s0 # rest) kwargs)) = [] \<and>
         isl (snd (snd (CrossEncoderModel_predict W b h (s0 # rest) kwargs))))) \<and>
   (length s0 \<noteq> 3 \<longrightarrow>
      CrossEncoderModel_predict W b h (s0 # rest) kwargs =
        (b\<lparr>encode_kwargs := dict_update (encode_kwargs b) kwargs\<rparr>,
         [Predict h (s0 # rest) (dict_update (encode_kwargs b) kwargs)],
         assert_tensor (model_predict W h (s0 # rest) (dict_update (encode_kwargs b) kwargs))))"
proof (intro conjI impI)
  show "fst (snd (CrossEncoderModel_predict W b h [] kwargs)) = []"
    by (simp add: CrossEncoderModel_predict_def Let_def)
  show "snd (snd (CrossEncoderModel_predict W b h [] kwargs)) = Inl IndexError"
    by (simp add: CrossEncoderModel_predict_def Let_def)
next
  assume "length s0 = 3"
  then show "CrossEncoderModel_predict W b h (s0 # rest) kwargs =
        (case processed_sentences (prompt b) (s0 # rest) of
           Inl e \<Rightarrow> (b\<lparr>encode_kwargs := dict_update (encode_kwargs b) kwargs\<rparr>, [], Inl e)
         | Inr ss \<Rightarrow>
             (b\<lparr>encode_kwargs := dict_update (encode_kwargs b) kwargs\<rparr>,
              [Predict h ss (dict_update (encode_kwargs b) kwargs)],
              assert_tensor (model_predict W h ss (dict_update (encode_kwargs b) kwargs))))"
    by (simp add: CrossEncoderModel_predict_def Let_def split: sum.splits)
next
  assume l: "length s0 = 3" and bad: "\<exists>s\<in>set rest. length s \<noteq> 3"
  from bad have "isl (processed_sentences (prompt b) (s0 # rest))"
    using processed_sentences_bad_shape [of "s0 # rest" "prompt b"] by auto
  then obtain e where e: "processed_sentences (prompt b) (s0 # rest) = Inl e"
    by (cases "processed_sentences (prompt b) (s0 # rest)") auto
  from l e show "fst (snd (CrossEncoderModel_predict W b h (s0 # rest) kwargs)) = []"
    by (simp add: CrossEncoderModel_predict_def Let_def)
  from l e show "isl (snd (snd (CrossEncoderModel_predict W b h (s0 # rest) kwargs)))"
    by (simp add: CrossEncoderModel_predict_def Let_def)
next
  assume "length s0 \<noteq> 3"
  then show "CrossEncoderModel_predict W b h (s0 # rest) kwargs =
        (b\<lparr>encode_kwargs := dict_update (encode_kwargs b) kwargs\<rparr>,
         [Predict h (s0 # rest) (dict_update (encode_kwargs b) kwargs)],
         assert_tensor (model_predict W h (s0 # rest) (dict_update (encode_kwargs b) kwargs)))"
    by (simp add: CrossEncoderModel_predict_def Let_def)
qed

theorem predict_unwraps_triples_witness:
  "[(''q'', Plain ''d'', Plain ''instr'')] \<noteq> [] \<and> prompt example_base = PStr ''query: '' \<and>
   CrossEncoderModel_predict example_world example_base example_cross
       [[Plain ''q'', Plain ''d'', Plain ''instr'']] [] =
     (example_base,
      [Predict example_cross [[Plain ''query: q'', Plain ''d'']] [(''convert_to_tensor'', PBool True)]],
      Inr (Tensor1 [2])) \<and>
   CrossEncoderModel_predict example_world example_base example_cross
       [[Plain ''q'', Doc [(''title'', ''T''), (''text'', ''d'')], Plain ''instr'']] [] =
     (example_base,
      [Predict example_cross [[Plain ''query: q'', Plain ''d'']] [(''convert_to_tensor'', PBool True)]],
      Inr (Tensor1 [2])) \<and>
   CrossEncoderModel_predict example_world example_base example_cross [[Plain ''q'', Plain ''d'']] [] =
     (example_base,
      [Predict example_cross [[Plain ''q'', Plain ''d'']] [(''convert_to_tensor'', PBool True)]],
      Inr (Tensor1 [2]))"
proof -
  have p: "prompt example_base = PStr ''query: ''"
    by (simp add: example_base_def)
  have k: "dict_update (encode_kwargs example_base) [] = [(''convert_to_tensor'', PBool True)]"
    by (simp add: example_base_def dict_update_def)
  have e2: "example_base\<lparr>encode_kwargs := [(''convert_to_tensor'', PBool True)]\<rparr> = example_base"
    by (simp add: example_base_def)
  have m: "assert_tensor (model_predict example_world example_cross [[x, y]] kw) = Inr (Tensor1 [2])"
    for x y kw
    by (simp add: assert_tensor_def example_world_def)
  from predict_unwraps_triples [where ts = "[(''q'', Plain ''d'', Plain ''instr'')]"
      and b = example_base and p = "''query: ''" and W = example_world and h = example_cross
      and kwargs = "[]" and pairs = "[[Plain ''q'', Plain ''d'']]"]
    predict_unwraps_triples [where ts = "[(''q'', Doc [(''title'', ''T''), (''text'', ''d'')], Plain ''instr'')]"
      and b = example_base and p = "''query: ''" and W = example_world and h = example_cross
      and kwargs = "[]" and pairs = "[[Plain ''q'', Plain ''d'']]"]
    p
  show ?thesis
    by (simp add: e2 k m triple_def prompted_pair_def)
qed

theorem predict_branch_on_first_element_witness:
  "length [Plain ''q'', Plain ''d'', Plain ''i''] = 3 \<and>
   (\<exists>s\<in>set [[Plain ''q2'', Plain ''d2'']]. length s \<noteq> 3) \<and>
   fst (snd (CrossEncoderModel_predict example_world example_base example_cross
       [[Plain ''q'', Plain ''d'', Plain ''i''], [Plain ''q2'', Plain ''d2'']] [])) = [] \<and>
   isl (snd (snd (CrossEncoderModel_predict example_world example_base example_cross
       [[Plain ''q'', Plain ''d'', Plain ''i''], [Plain ''q2'', Plain ''d2'']] []))) \<and>
   length [Plain ''q2'', Plain ''d2''] \<noteq> 3 \<and>
   CrossEncoderModel_predict example_world example_base example_cross
       [[Plain ''q2'', Plain ''d2''], [Plain ''q'', Plain ''d'', Plain ''i'']] [] =
     (example_base,
      [Predict example_cross [[Plain ''q2'', Plain ''d2''], [Plain ''q'', Plain ''d'', Plain ''i'']]
         [(''convert_to_tensor'', PBool True)]],
      Inr (Tensor1 [2, 3]))"
proof -
  have k: "dict_update (encode_kwargs example_base) [] = [(''convert_to_tensor'', PBool True)]"
    by (simp add: example_base_def dict_update_def)
  have e2: "example_base\<lparr>encode_kwargs := [(''convert_to_tensor'', PBool True)]\<rparr> = example_base"
    by (simp add: example_base_def)
  have m: "assert_tensor (model_predict example_world example_cross
             [[Plain ''q2'', Plain ''d2''], [Plain ''q'', Plain ''d'', Plain ''i'']] kw) =
           Inr (Tensor1 [2, 3])" for kw
    by (simp add: assert_tensor_def example_world_def)
  have l3: "length [Plain ''q'', Plain ''d'', Plain ''i''] = 3" by simp
  have bad: "\<exists>s\<in>set [[Plain ''q2'', Plain ''d2'']]. length s \<noteq> 3" by simp
  have l2: "length [Plain ''q2'', Plain ''d2''] \<noteq> 3" by simp
  from predict_branch_on_first_element [where ?s0.0 = "[Plain ''q'', Plain ''d'', Plain ''i'']"
      and rest = "[[Plain ''q2'', Plain ''d2'']]" and W = example_world and b = example_base
      and h = example_cross and kwargs = "[]"] l3 bad
  have A: "fst (snd (CrossEncoderModel_predict example_world example_base example_cross
       [[Plain ''q'', Plain ''d'', Plain ''i''], [Plain ''q2'', Plain ''d2'']] [])) = [] \<and>
     isl (snd (snd (CrossEncoderModel_predict example_world example_base example_cross
       [[Plain ''q'', Plain ''d'', Plain ''i''], [Plain ''q2'', Plain ''d2'']] [])))"
    by blast
  from predict_branch_on_first_element [where ?s0.0 = "[Plain ''q2'', Plain ''d2'']"
      and rest = "[[Plain ''q'', Plain ''d'', Plain ''i'']]" and W = example_world and b = example_base
      and h = example_cross and kwargs = "[]"] l2
  have "CrossEncoderModel_predict example_world example_base example_cross
       [[Plain ''q2'', Plain ''d2''], [Plain ''q'', Plain ''d'', Plain ''i'']] [] =
     (example_base\<lparr>encode_kwargs := dict_update (encode_kwargs example_base) []\<rparr>,
      [Predict example_cross [[Plain ''q2'', Plain ''d2''], [Plain ''q'', Plain ''d'', Plain ''i'']]
         (dict_update (encode_kwargs example_base) [])],
      assert_tensor (model_predict example_world example_cross
         [[Plain ''q2'', Plain ''d2''], [Plain ''q'', Plain ''d'', Plain ''i'']]
         (dict_update (encode_kwargs example_base) [])))"
    by blast
  then have B: "CrossEncoderModel_predict example_world example_base example_cross
       [[Plain ''q2'', Plain ''d2''], [Plain ''q'', Plain ''d'', Plain ''i'']] [] =
     (example_base,
      [Predict example_cross [[Plain ''q2'', Plain ''d2''], [Plain ''q'', Plain ''d'', Plain ''i'']]
         [(''convert_to_tensor'', PBool True)]],
      Inr (Tensor1 [2, 3]))"
    by (simp only: k e2 m)
  from A B l3 bad l2 show ?thesis by blast
qed

section \<open>Call-time options\<close>

lemma dict_update_Nil: "dict_update d [] = d"
  by (simp add: dict_update_def)

lemma map_of_dict_update:
  "distinct (map fst kw) \<Longrightarrow> map_of (dict_update d kw) = map_of d ++ map_of kw"
proof (induction kw arbitrary: d)
  case Nil
  then show ?case by (simp add: dict_update_def)
next
  case (Cons x kw)
  obtain k v where x: "x = (k, v)" by (cases x)
  from Cons.prems x have fresh: "map_of kw k = None" and d: "distinct (map fst kw)"
    by (auto simp: map_of_eq_None_iff)
  have step: "dict_update d (x # kw) = dict_update (AList.update k v d) kw"
    by (simp add: dict_update_def x)
  have "map_of (dict_update (AList.update k v d) kw) = map_of (AList.update k v d) ++ map_of kw"
    using d by (rule Cons.IH)
  also have "map_of (AList.update k v d) = (map_of d)(k \<mapsto> v)"
    by (rule update_conv')
  also have "(map_of d)(k \<mapsto> v) ++ map_of kw = map_of d ++ map_of (x # kw)"
    using fresh by (auto simp: x fun_eq_iff map_add_def split: option.splits)
  finally show ?case by (simp only: step)
qed

text \<open>
  C9, as stated, fails for the remote adapter: \<open>APIEmbeddingModel_encode\<close> never touches
  the stored options, so an extra option of a call is not in them afterwards.
\<close>

theorem api_encode_ignores_options:
  "fst (APIEmbeddingModel_encode example_world example_base example_client (PInt 10)
          (Lst [Plain ''a'']) [(''normalize_embeddings'', PBool True)]) = example_base \<and>
   map_of (encode_kwargs example_base) ''normalize_embeddings'' = None"
  by (simp add: APIEmbeddingModel_encode_def example_base_def split: prod.splits sum.splits)

text \<open>
  C9, amended. \<open>SentenceTransformerModel_encode\<close> merges the extra options of a call,
  without \<^verbatim>\<open>prompt_name\<close>, into the stored encode-time options, and
  \<open>CrossEncoderModel_predict\<close> merges all of them; on a key conflict the extra option
  wins, and the merged options are what the next call without extra options passes to
  the runtime. \<open>APIEmbeddingModel_encode\<close> leaves the adapter as it was.
\<close>

theorem encode_options_merge:
  "encode_kwargs (fst (SentenceTransformerModel_encode W b h txts prm kwargs)) =
     dict_update (encode_kwargs b) (AList.delete ''prompt_name'' kwargs) \<and>
   encode_kwargs (fst (CrossEncoderModel_predict W b h sentences kwargs)) =
     dict_update (encode_kwargs b) kwargs \<and>
   (distinct (map fst kwargs) \<longrightarrow>
      map_of (dict_update (encode_kwargs b) kwargs) = map_of (encode_kwargs b) ++ map_of kwargs) \<and>
   (\<not> has_key (dict_update (encode_kwargs b) (AList.delete ''prompt_name'' kwargs)) ''prompt'' \<longrightarrow>
      fst (snd (SentenceTransformerModel_encode W
                  (fst (SentenceTransformerModel_encode W b h txts prm kwargs)) h txts' prm' [])) =
        [Encode h txts' prm' (dict_update (encode_kwargs b) (AList.delete ''prompt_name'' kwargs))]) \<and>
   (length s0 \<noteq> 3 \<longrightarrow>
      fst (snd (CrossEncoderModel_predict W
                  (fst (CrossEncoderModel_predict W b h sentences kwargs)) h (s0 # rest) [])) =
        [Predict h (s0 # rest) (dict_update (encode_kwargs b) kwargs)]) \<and>
   fst (APIEmbeddingModel_encode W b h bs txts kwargs) = b"
proof (intro conjI impI)
  show "encode_kwargs (fst (SentenceTransformerModel_encode W b h txts prm kwargs)) =
     dict_update (encode_kwargs b) (AList.delete ''prompt_name'' kwargs)"
    by (simp add: SentenceTransformerModel_encode_def Let_def)
  show "encode_kwargs (fst (CrossEncoderModel_predict W b h sentences kwargs)) =
     dict_update (encode_kwargs b) kwargs"
    by (simp add: CrossEncoderModel_predict_def Let_def split: sum.splits)
  show "fst (APIEmbeddingModel_encode W b h bs txts kwargs) = b"
    by (simp add: APIEmbeddingModel_encode_def Let_def split: option.splits prod.splits sum.splits)
next
  assume "distinct (map fst kwargs)"
  then show "map_of (dict_update (encode_kwargs b) kwargs) = map_of (encode_kwargs b) ++ map_of kwargs"
    by (rule map_of_dict_update)
next
  assume "\<not> has_key (dict_update (encode_kwargs b) (AList.delete ''prompt_name'' kwargs)) ''prompt''"
  then show "fst (snd (SentenceTransformerModel_encode W
                  (fst (SentenceTransformerModel_encode W b h txts prm kwargs)) h txts' prm' [])) =
        [Encode h txts' prm' (dict_update (encode_kwargs b) (AList.delete ''prompt_name'' kwargs))]"
    by (simp add: SentenceTransformerModel_encode_def Let_def dict_update_Nil)
next
  assume "length s0 \<noteq> 3"
  then show "fst (snd (CrossEncoderModel_predict W
                  (fst (CrossEncoderModel_predict W b h sentences kwargs)) h (s0 # rest) [])) =
        [Predict h (s0 # rest) (dict_update (encode_kwargs b) kwargs)]"
    by (simp add: CrossEncoderModel_predict_def Let_def dict_update_Nil split: sum.splits)
qed

theorem encode_options_merge_witness:
  "distinct (map fst [(''batch_size'', PInt 8), (''prompt_name'', PStr ''query''),
       (''convert_to_tensor'', PBool False)]) \<and>
   \<not> has_key [(''convert_to_tensor'', PBool False), (''batch_size'', PInt 8)] ''prompt'' \<and>
   length [Plain ''q'', Plain ''d''] \<noteq> 3 \<and>
   encode_kwargs (fst (SentenceTransformerModel_encode example_world example_base example_bi
       (Str ''t'') PNone
       [(''batch_size'', PInt 8), (''prompt_name'', PStr ''query''), (''convert_to_tensor'', PBool False)])) =
     [(''convert_to_tensor'', PBool False), (''batch_size'', PInt 8)] \<and>
   fst (snd (SentenceTransformerModel_encode example_world
       (fst (SentenceTransformerModel_encode example_world example_base example_bi (Str ''t'') PNone
          [(''batch_size'', PInt 8), (''prompt_name'', PStr ''query''), (''convert_to_tensor'', PBool False)]))
       example_bi (Str ''u'') PNone [])) =
     [Encode example_bi (Str ''u'') PNone [(''convert_to_tensor'', PBool False), (''batch_size'', PInt 8)]] \<and>
   fst (snd (CrossEncoderModel_predict example_world
       (fst (CrossEncoderModel_predict example_world example_base example_cross []
          [(''batch_size'', PInt 8), (''prompt_name'', PStr ''query''), (''convert_to_tensor'', PBool False)]))
       example_cross [[Plain ''q'', Plain ''d'']] [])) =
     [Predict example_cross [[Plain ''q'', Plain ''d'']]
        [(''convert_to_tensor'', PBool False), (''batch_size'', PInt 8), (''prompt_name'', PStr ''query'')]]"
proof -
  let ?kw = "[(''batch_size'', PInt 8), (''prompt_name'', PStr ''query''),
       (''convert_to_tensor'', PBool False)]"
  have d: "distinct (map fst ?kw)" by simp
  have m1: "dict_update (encode_kwargs example_base) (AList.delete ''prompt_name'' ?kw) =
      [(''convert_to_tensor'', PBool False), (''batch_size'', PInt 8)]"
    by (simp add: dict_update_def example_base_def)
  have m2: "dict_update (encode_kwargs example_base) ?kw =
      [(''convert_to_tensor'', PBool False), (''batch_size'', PInt 8), (''prompt_name'', PStr ''query'')]"
    by (simp add: dict_update_def example_base_def)
  have p: "\<not> has_key [(''convert_to_tensor'', PBool False), (''batch_size'', PInt 8)] ''prompt''"
    by (simp add: has_key_def)
  have l: "length [Plain ''q'', Plain ''d''] \<noteq> 3" by simp
  from encode_options_merge [where W = example_world and b = example_base and h = example_bi
      and txts = "Str ''t''" and prm = PNone and kwargs = ?kw and txts' = "Str ''u''" and prm' = PNone
      and ?s0.0 = "[Plain ''q'', Plain ''d'']" and rest = "[]" and sentences = "[]"]
  have A: "encode_kwargs (fst (SentenceTransformerModel_encode example_world example_base example_bi
       (Str ''t'') PNone ?kw)) = [(''convert_to_tensor'', PBool False), (''batch_size'', PInt 8)]"
    and B: "fst (snd (SentenceTransformerModel_encode example_world
       (fst (SentenceTransformerModel_encode example_world example_base example_bi (Str ''t'') PNone ?kw))
       example_bi (Str ''u'') PNone [])) =
     [Encode example_bi (Str ''u'') PNone [(''convert_to_tensor'', PBool False), (''batch_size'', PInt 8)]]"
    using p by (simp_all only: m1 simp_thms)
  from encode_options_merge [where W = example_world and b = example_base and h = example_cross
      and kwargs = ?kw and ?s0.0 = "[Plain ''q'', Plain ''d'']" and rest = "[]" and sentences = "[]"]
  have C: "fst (snd (CrossEncoderModel_predict example_world
       (fst (CrossEncoderModel_predict example_world example_base example_cross [] ?kw))
       example_cross [[Plain ''q'', Plain ''d'']] [])) =
     [Predict example_cross [[Plain ''q'', Plain ''d'']]
        [(''convert_to_tensor'', PBool False), (''batch_size'', PInt 8), (''prompt_name'', PStr ''query'')]]"
    using l by (simp only: m2 simp_thms)
  from d p l A B C show ?thesis by blast
qed

section \<open>Structured records\<close>


lemma normalize_doc_title_text:
  "map_of d ''text'' \<noteq> None \<Longrightarrow> normalize_doc (Doc d) = Inr (Plain (title_text d))"
  by (auto simp: title_text_def)





section \<open>Query and document embeddings\<close>

lemma item0_changes_shape: "item0 v \<noteq> Inr v"
  by (cases v rule: item0.cases) auto

lemma api_embed_query_is_embed_documents:
  "embed_query W (APIEmbeddingModel b h bs) t = embed_documents W (APIEmbeddingModel b h bs) [Plain t]"
  by (simp add: embed_query_def embed_documents_def APIEmbeddingModel_encode_queries_def
      APIEmbeddingModel_encode_corpus_def APIEmbeddingModel_encode_def)

lemma bi_embed_query_call:
  "\<not> has_key (encode_kwargs b) ''prompt'' \<Longrightarrow>
     fst (snd (embed_query W (SentenceTransformerModel b h) t)) =
       [Encode h (Str t) (prompt b) (encode_kwargs b)]"
  by (simp add: embed_query_def SentenceTransformerModel_encode_queries_def
      SentenceTransformerModel_encode_def dict_update_Nil Let_def split: sum.splits)

lemma bi_embed_documents_call:
  "\<not> has_key (encode_kwargs b) ''prompt'' \<Longrightarrow>
     fst (snd (embed_documents W (SentenceTransformerModel b h) [Plain t])) =
       [Encode h (Lst [Plain t]) PNone (encode_kwargs b)]"
  by (simp add: embed_documents_def SentenceTransformerModel_encode_corpus_def
      SentenceTransformerModel_encode_def dict_update_Nil Let_def split: sum.splits)

text \<open>
  C5. For the remote adapter \<open>embed_query\<close> on a text is \<open>embed_documents\<close> on the
  one-element list (lemma \<open>api_embed_query_is_embed_documents\<close>): the one-row matrix as a
  nested list, not its first row. Evaluated on the text \<^verbatim>\<open>t\<close>: both return
  \<^verbatim>\<open>[[1]]\<close>, and the first row of the documents' result is \<^verbatim>\<open>[1]\<close>.
\<close>

theorem api_embed_query_nested:
  "snd (snd (embed_query example_world (APIEmbeddingModel example_base example_client (PInt 10)) ''t'')) =
     Inr (Nested [[1]]) \<and>
   snd (snd (embed_documents example_world (APIEmbeddingModel example_base example_client (PInt 10))
     [Plain ''t''])) = Inr (Nested [[1]]) \<and>
   item0 (Nested [[1::int]]) = Inr (Flat [1])"
proof -
  have "embed_batches example_world example_client (PInt 10) 10 [Plain ''t''] 0 [] =
      ([EmbedDocuments example_client [Plain ''t''] (PInt 10)], Inr [[1]])"
    by (simp add: embed_batches.simps [of _ _ _ _ _ 0] embed_batches.simps [of _ _ _ _ _ 10]
        example_world_def text_len_def)
  then have "snd (snd (embed_documents example_world
      (APIEmbeddingModel example_base example_client (PInt 10)) [Plain ''t''])) = Inr (Nested [[1]])"
    by (simp add: embed_documents_def APIEmbeddingModel_encode_corpus_def
        APIEmbeddingModel_encode_def torch_tensor_def)
  then show ?thesis
    by (simp add: api_embed_query_is_embed_documents)
qed

end
